theory Spec2Isabelle
  imports Main "HOL-Library.Sublist" "HOL-Library.AList"
begin

section \<open>Python values and the runtime the handler relies on\<close>

text \<open>
  The module \<open>app.py\<close> is a Flask application with one computing route, \<open>/analyze\<close>.
  Everything it receives is a value decoded from JSON. A Python \<open>str\<close> is represented by
  its UTF-8 encoding (a \<open>string\<close>, one \<open>char\<close> per byte); a \<open>dict\<close> by the list of its
  items in insertion order, whose keys are pairwise distinct in every real dictionary.
  The type \<open>'f\<close> stands for Python's \<open>float\<close>.
\<close>

datatype 'f pyval =
    PNone
  | PBool bool
  | PInt int
  | PFloat 'f
  | PStr string
  | PList "'f pyval list"
  | PDict "(string \<times> 'f pyval) list"

text \<open>
  The built-ins whose result depends on IEEE arithmetic or on the Unicode tables are
  taken as the fields of a runtime: the handler is verified for every runtime.
  \<open>float_of_int n\<close> is \<open>float(n)\<close> (\<open>None\<close> when it raises OverflowError),
  \<open>float_of_str s\<close> is \<open>float(s)\<close> (\<open>None\<close> when it raises ValueError),
  \<open>float_is_zero x\<close> is \<open>x == 0\<close>, \<open>float_lt_zero x\<close> is \<open>x < 0\<close>,
  \<open>float_format x\<close> is \<open>format(x, ',.2f')\<close>, and \<open>str_strip\<close>, \<open>str_lower\<close>,
  \<open>str_title\<close> are the methods \<open>strip()\<close>, \<open>lower()\<close> and \<open>title()\<close> of \<open>str\<close>.
\<close>

record 'f runtime =
  float_of_int :: "int \<Rightarrow> 'f option"
  float_of_str :: "string \<Rightarrow> 'f option"
  float_zero :: 'f
  float_is_zero :: "'f \<Rightarrow> bool"
  float_lt_zero :: "'f \<Rightarrow> bool"
  float_add :: "'f \<Rightarrow> 'f \<Rightarrow> 'f"
  float_sub :: "'f \<Rightarrow> 'f \<Rightarrow> 'f"
  float_format :: "'f \<Rightarrow> string"
  str_strip :: "string \<Rightarrow> string"
  str_lower :: "string \<Rightarrow> string"
  str_title :: "string \<Rightarrow> string"

datatype float_error = ValueError | TypeError | OverflowError

text \<open>\<open>float(v)\<close>: by the type of the argument.\<close>

fun py_float :: "'f runtime \<Rightarrow> 'f pyval \<Rightarrow> float_error + 'f" where
  "py_float rt PNone = Inl TypeError"
| "py_float rt (PBool b) =
     (case float_of_int rt (if b then 1 else 0) of
        None \<Rightarrow> Inl OverflowError | Some x \<Rightarrow> Inr x)"
| "py_float rt (PInt n) =
     (case float_of_int rt n of None \<Rightarrow> Inl OverflowError | Some x \<Rightarrow> Inr x)"
| "py_float rt (PFloat x) = Inr x"
| "py_float rt (PStr s) =
     (case float_of_str rt s of None \<Rightarrow> Inl ValueError | Some x \<Rightarrow> Inr x)"
| "py_float rt (PList xs) = Inl TypeError"
| "py_float rt (PDict kvs) = Inl TypeError"

text \<open>Truth value of a Python object, as \<open>if amount\<close> and \<open>not expenses\<close> test it.\<close>

fun truthy :: "'f runtime \<Rightarrow> 'f pyval \<Rightarrow> bool" where
  "truthy rt PNone = False"
| "truthy rt (PBool b) = b"
| "truthy rt (PInt n) = (n \<noteq> 0)"
| "truthy rt (PFloat x) = (\<not> float_is_zero rt x)"
| "truthy rt (PStr s) = (s \<noteq> [])"
| "truthy rt (PList xs) = (xs \<noteq> [])"
| "truthy rt (PDict kvs) = (kvs \<noteq> [])"

text \<open>
  \<open>str(v).strip() == ""\<close>. The text of a number, of a boolean, of a list and of a
  dictionary always holds a character that is not white space, so only a string can
  be blank.
\<close>

fun blank_str :: "'f runtime \<Rightarrow> 'f pyval \<Rightarrow> bool" where
  "blank_str rt (PStr s) = (str_strip rt s = [])"
| "blank_str rt v = False"

fun type_name :: "'f pyval \<Rightarrow> string" where
  "type_name PNone = ''NoneType''"
| "type_name (PBool b) = ''bool''"
| "type_name (PInt n) = ''int''"
| "type_name (PFloat x) = ''float''"
| "type_name (PStr s) = ''str''"
| "type_name (PList xs) = ''list''"
| "type_name (PDict kvs) = ''dict''"

text \<open>\<open>sub in s\<close> on strings, \<open>s.replace(a, b)\<close> on single characters, \<open>sep.join(xs)\<close>.\<close>

fun str_contains :: "string \<Rightarrow> string \<Rightarrow> bool" where
  "str_contains sub [] = (sub = [])"
| "str_contains sub (c # cs) = (prefix sub (c # cs) \<or> str_contains sub cs)"

definition str_replace :: "char \<Rightarrow> char \<Rightarrow> string \<Rightarrow> string" where
  "str_replace a b s = map (\<lambda>c. if c = a then b else c) s"

fun str_join :: "string \<Rightarrow> string list \<Rightarrow> string" where
  "str_join sep [] = []"
| "str_join sep [x] = x"
| "str_join sep (x # y # ys) = x @ sep @ str_join sep (y # ys)"

text \<open>\<open>str(n)\<close> of a natural number, used by the log messages.\<close>

fun str_nat :: "nat \<Rightarrow> string" where
  "str_nat n =
     (if n < 10 then [char_of (48 + n)]
      else str_nat (n div 10) @ [char_of (48 + n mod 10)])"

section \<open>Responses, control flow and effects\<close>

record 'f response =
  body :: "'f pyval"
  status :: nat

text \<open>\<open>jsonify({"error": msg}), code\<close> and \<open>jsonify({"advice": advice})\<close>.\<close>

definition error_response :: "string \<Rightarrow> nat \<Rightarrow> 'f response" where
  "error_response msg code = \<lparr>body = PDict [(''error'', PStr msg)], status = code\<rparr>"

definition advice_response :: "string option \<Rightarrow> 'f response" where
  "advice_response advice =
     \<lparr>body = PDict [(''advice'', (case advice of None \<Rightarrow> PNone | Some s \<Rightarrow> PStr s))],
      status = 200\<rparr>"

text \<open>
  A block of the handler goes on with a value, returns a response, or raises. The
  handlers of \<open>analyze\<close> read nothing of an exception but \<open>str(exc)\<close>, so an exception
  that reaches an \<open>except Exception\<close> clause is represented by that text.
\<close>

datatype ('f, 'a) flow = Next 'a | Return "'f response" | Raise string

fun flow_bind :: "('f, 'a) flow \<Rightarrow> ('a \<Rightarrow> ('f, 'b) flow) \<Rightarrow> ('f, 'b) flow" where
  "flow_bind (Next x) k = k x"
| "flow_bind (Return r) k = Return r"
| "flow_bind (Raise e) k = Raise e"

text \<open>
  \<open>request.get_json(force=True)\<close> either raises (the text of the exception is given)
  or yields the decoded body.
\<close>

datatype 'f request = BadBody string | Body "'f pyval"

record chat_request =
  model :: string
  messages :: "(string \<times> string) list"
  temperature :: string
  max_tokens :: nat

text \<open>
  The external service: what call number \<open>attempt\<close> of a run answers. A completion
  carries the \<open>message.content\<close> of each of its choices.
\<close>

datatype api_result = Completion "string option list" | ApiFailure string

type_synonym api = "nat \<Rightarrow> chat_request \<Rightarrow> api_result"

datatype event =
    ChatCreate chat_request
  | Sleep nat
  | LogWarning string
  | LogError string

section \<open>Module level: configuration\<close>

text \<open>
  \<open>load_dotenv()\<close> adds the variables of the \<open>.env\<close> file that the environment does
  not define yet; \<open>os.getenv\<close> then reads the environment.
\<close>

type_synonym environ = "string \<rightharpoonup> string"

definition load_dotenv :: "environ \<Rightarrow> environ \<Rightarrow> environ" where
  "load_dotenv dotenv env = dotenv ++ env"

definition os_getenv :: "environ \<Rightarrow> string \<Rightarrow> string option" where
  "os_getenv env name = env name"

record module_state =
  GROQ_API_KEY :: "string option"
  client :: "string option"
  MODEL :: "string option"
  app_created :: bool
  routes :: "(string \<times> string list) list"

definition module_start :: module_state where
  "module_start =
     \<lparr>GROQ_API_KEY = None, client = None, MODEL = None, app_created = False, routes = []\<rparr>"

text \<open>
  Running the module body, top to bottom: the result is the exception that stopped it,
  if any, and the bindings made so far. The decorators register \<open>/\<close> and \<open>/analyze\<close>
  after the key check.
\<close>

definition run_module :: "environ \<Rightarrow> environ \<Rightarrow> string option \<times> module_state" where
  "run_module dotenv env =
     (let env' = load_dotenv dotenv env;
          key = os_getenv env' ''GROQ_API_KEY'';
          s1 = module_start\<lparr>GROQ_API_KEY := key\<rparr>
      in if key = None \<or> key = Some []
         then (Some ''GROQ_API_KEY not found. Please set it in your .env file.'', s1)
         else
           let s2 = s1\<lparr>client := key\<rparr>;
               s3 = s2\<lparr>MODEL := Some ''llama-3.3-70b-versatile''\<rparr>;
               s4 = s3\<lparr>app_created := True\<rparr>;
               s5 = s4\<lparr>routes := routes s4 @ [(''/'', [''GET''])]\<rparr>;
               s6 = s5\<lparr>routes := routes s5 @ [(''/analyze'', [''POST''])]\<rparr>
           in (None, s6))"

text \<open>
  \<open>app.run\<close> is reached, and a route can be served, only when the module body ran to
  its end.
\<close>

definition serves :: "string option \<times> module_state \<Rightarrow> string \<Rightarrow> bool" where
  "serves r path = (fst r = None \<and> path \<in> set (map fst (routes (snd r))))"

text \<open>The globals a request handler reads.\<close>

record server =
  srv_client :: string
  srv_MODEL :: string

section \<open>The \<open>/analyze\<close> handler\<close>

subsection \<open>Reading the body\<close>

definition get_json :: "'f request \<Rightarrow> ('f, 'f pyval) flow" where
  "get_json req = (case req of BadBody e \<Rightarrow> Raise e | Body data \<Rightarrow> Next data)"

text \<open>
  \<open>data.get(key, default)\<close>: only a dictionary has the method; on any other value the
  attribute lookup raises AttributeError.
\<close>

definition no_get_text :: "'f pyval \<Rightarrow> string" where
  "no_get_text data =
     [CHR 0x27] @ type_name data @ [CHR 0x27] @ '' object has no attribute ''
       @ [CHR 0x27] @ ''get'' @ [CHR 0x27]"

definition data_get :: "'f pyval \<Rightarrow> string \<Rightarrow> 'f pyval \<Rightarrow> ('f, 'f pyval) flow" where
  "data_get data key dflt =
     (case data of
        PDict kvs \<Rightarrow> Next (case map_of kvs key of None \<Rightarrow> dflt | Some v \<Rightarrow> v)
      | _ \<Rightarrow> Raise (no_get_text data))"

subsection \<open>Validation of the income\<close>

text \<open>The body of the inner \<open>try\<close>: \<open>float(v)\<close>, then \<open>raise ValueError\<close> below zero.\<close>

definition float_not_negative :: "'f runtime \<Rightarrow> 'f pyval \<Rightarrow> float_error + 'f" where
  "float_not_negative rt v =
     (case py_float rt v of
        Inl e \<Rightarrow> Inl e
      | Inr x \<Rightarrow> if float_lt_zero rt x then Inl ValueError else Inr x)"

definition overflow_text :: string where
  "overflow_text = ''int too large to convert to float''"

text \<open>
  \<open>except (ValueError, TypeError)\<close> answers with \<open>resp\<close>; an OverflowError is not
  caught there and leaves the block.
\<close>

definition except_value_type ::
    "float_error + 'f \<Rightarrow> 'f response \<Rightarrow> ('f, 'f) flow" where
  "except_value_type r resp =
     (case r of
        Inr x \<Rightarrow> Next x
      | Inl ValueError \<Rightarrow> Return resp
      | Inl TypeError \<Rightarrow> Return resp
      | Inl OverflowError \<Rightarrow> Raise overflow_text)"

definition validate_income :: "'f runtime \<Rightarrow> 'f pyval \<Rightarrow> ('f, 'f) flow" where
  "validate_income rt income =
     (if (case income of PNone \<Rightarrow> True | _ \<Rightarrow> False) \<or> blank_str rt income
      then Return (error_response ''Monthly income is required.'' 400)
      else except_value_type (float_not_negative rt income)
             (error_response ''Income must be a valid positive number.'' 400))"

subsection \<open>Validation of the expenses\<close>

text \<open>\<open>float(amount) if amount else 0.0\<close>, then the check of the sign.\<close>

definition parse_amount :: "'f runtime \<Rightarrow> 'f pyval \<Rightarrow> float_error + 'f" where
  "parse_amount rt amount =
     (case (if truthy rt amount then py_float rt amount else Inr (float_zero rt)) of
        Inl e \<Rightarrow> Inl e
      | Inr val \<Rightarrow> if float_lt_zero rt val then Inl ValueError else Inr val)"

definition invalid_amount :: "string \<Rightarrow> 'f response" where
  "invalid_amount category =
     error_response (''Invalid amount for '' @ [CHR 0x27] @ category @ [CHR 0x27] @ ''.'') 400"

text \<open>
  The loop over \<open>expenses.items()\<close>; \<open>parsed_expenses[category] = val\<close> replaces the
  value of a key already there and appends a new key at the end.
\<close>

fun parse_expenses ::
    "'f runtime \<Rightarrow> (string \<times> 'f pyval) list \<Rightarrow> (string \<times> 'f) list
       \<Rightarrow> ('f, (string \<times> 'f) list) flow" where
  "parse_expenses rt [] parsed_expenses = Next parsed_expenses"
| "parse_expenses rt ((category, amount) # rest) parsed_expenses =
     flow_bind (except_value_type (parse_amount rt amount) (invalid_amount category))
       (\<lambda>val. parse_expenses rt rest (AList.update category val parsed_expenses))"

definition no_expenses :: "'f response" where
  "no_expenses = error_response ''At least one expense category is required.'' 400"

definition validate_expenses ::
    "'f runtime \<Rightarrow> 'f pyval \<Rightarrow> ('f, (string \<times> 'f) list) flow" where
  "validate_expenses rt expenses =
     (case expenses of
        PDict items \<Rightarrow> if items = [] then Return no_expenses else parse_expenses rt items []
      | _ \<Rightarrow> Return no_expenses)"

subsection \<open>The prompt\<close>

text \<open>
  The bytes of the currency sign and of the other characters outside ASCII are those
  of the source file.
\<close>

definition rupee :: string where
  "rupee = [CHR 0xC3, CHR 0xA2, CHR 0xE2, CHR 0x80, CHR 0x9A, CHR 0xC2, CHR 0xB9]"

text \<open>\<open>sum(parsed_expenses.values())\<close>: the sum starts from the integer 0.\<close>

definition total_of :: "'f runtime \<Rightarrow> (string \<times> 'f) list \<Rightarrow> 'f" where
  "total_of rt parsed_expenses =
     foldl (float_add rt) (float_zero rt) (map snd parsed_expenses)"

definition expense_line :: "'f runtime \<Rightarrow> string \<times> 'f \<Rightarrow> string" where
  "expense_line rt item =
     ''  - '' @ str_title rt (str_replace (CHR ''_'') (CHR '' '') (fst item)) @ '': '' @ rupee
       @ float_format rt (snd item)"

definition expense_lines :: "'f runtime \<Rightarrow> (string \<times> 'f) list \<Rightarrow> string" where
  "expense_lines rt parsed_expenses =
     str_join [CHR 0x0A] (map (expense_line rt) parsed_expenses)"

definition prompt_head :: string where
  "prompt_head =
     ''You are PocketSmart AI '' @
     [CHR 0xC3, CHR 0xA2, CHR 0xE2, CHR 0x82, CHR 0xAC, CHR 0xE2, CHR 0x80, CHR 0x9D] @
     '' a friendly, expert personal-finance advisor.'' @
     [CHR 0x0A, CHR 0x0A] @
     ''A user has shared the following monthly financial data:'' @
     [CHR 0x0A, CHR 0x0A]"

definition prompt_tail :: string where
  "prompt_tail =
     [CHR 0x0A, CHR 0x0A] @
     ''Based on this data, provide a comprehensive yet easy-to-read budget analysis.'' @
     [CHR 0x0A] @
     ''Structure your response with these sections using markdown headings (##):'' @
     [CHR 0x0A, CHR 0x0A] @
     ''## '' @
     [CHR 0xC3, CHR 0xB0, CHR 0xC5, CHR 0xB8, CHR 0xE2, CHR 0x80, CHR 0x9C, CHR 0xC5, CHR 0xA0] @
     '' Budget Overview'' @
     [CHR 0x0A] @
     ''Summarize income vs. expenses and the current financial health.'' @
     [CHR 0x0A, CHR 0x0A] @
     ''## '' @
     [CHR 0xC3, CHR 0xB0, CHR 0xC5, CHR 0xB8, CHR 0xE2, CHR 0x80, CHR 0x99, CHR 0xC2, CHR 0xA1] @
     '' Smart Saving Tips'' @
     [CHR 0x0A] @
     ''Give 4-5 specific, actionable tips to reduce spending in the categories listed.'' @
     [CHR 0x0A, CHR 0x0A] @
     ''## '' @
     [CHR 0xC3, CHR 0xB0, CHR 0xC5, CHR 0xB8, CHR 0xE2, CHR 0x80, CHR 0x9C, CHR 0xCB, CHR 0x86] @
     '' Better Spending Strategies'' @
     [CHR 0x0A] @
     ''Suggest how to reallocate money for better value (e.g., invest, emergency fund).'' @
     [CHR 0x0A, CHR 0x0A] @
     ''## '' @
     [CHR 0xC3, CHR 0xB0, CHR 0xC5, CHR 0xB8, CHR 0xC5, CHR 0xBD, CHR 0xC2, CHR 0xAF] @
     '' Recommended Monthly Budget'' @
     [CHR 0x0A] @
     ''Provide an ideal budget split (table format) for someone with this income level.'' @
     [CHR 0x0A, CHR 0x0A] @
     ''## '' @
     [CHR 0xC3, CHR 0xA2, CHR 0xC5, CHR 0xA1, CHR 0xC2, CHR 0xA0, CHR 0xC3, CHR 0xAF, CHR 0xC2,
      CHR 0xB8] @
     '' Warnings'' @
     [CHR 0x0A] @
     ''Flag any concerning patterns (overspending, no savings, etc.).'' @
     [CHR 0x0A, CHR 0x0A] @
     ''Keep the tone encouraging and practical. Use bullet points and emojis for readability.'' @
     [CHR 0x0A]"

definition income_row :: "'f runtime \<Rightarrow> 'f \<Rightarrow> string" where
  "income_row rt income = ''Monthly Income : '' @ rupee @ float_format rt income"

definition total_row :: "'f runtime \<Rightarrow> 'f \<Rightarrow> string" where
  "total_row rt total_expenses = ''Total Expenses : '' @ rupee @ float_format rt total_expenses"

definition remaining_row :: "'f runtime \<Rightarrow> 'f \<Rightarrow> 'f \<Rightarrow> string" where
  "remaining_row rt income total_expenses =
     ''Remaining      : '' @ rupee @ float_format rt (float_sub rt income total_expenses)"

definition build_prompt :: "'f runtime \<Rightarrow> 'f \<Rightarrow> (string \<times> 'f) list \<Rightarrow> string" where
  "build_prompt rt income parsed_expenses =
     (let total_expenses = total_of rt parsed_expenses
      in prompt_head
         @ income_row rt income @ [CHR 0x0A]
         @ total_row rt total_expenses @ [CHR 0x0A]
         @ remaining_row rt income total_expenses @ [CHR 0x0A, CHR 0x0A]
         @ ''Expense Breakdown:'' @ [CHR 0x0A]
         @ expense_lines rt parsed_expenses
         @ prompt_tail)"

text \<open>Everything the handler does before it calls the service.\<close>

definition prepare :: "'f runtime \<Rightarrow> 'f request \<Rightarrow> ('f, string) flow" where
  "prepare rt req =
     flow_bind (get_json req) (\<lambda>data.
     flow_bind (data_get data ''income'' PNone) (\<lambda>income_field.
     flow_bind (validate_income rt income_field) (\<lambda>income.
     flow_bind (data_get data ''expenses'' (PDict [])) (\<lambda>expenses.
     flow_bind (validate_expenses rt expenses) (\<lambda>parsed_expenses.
     Next (build_prompt rt income parsed_expenses))))))"

subsection \<open>Calling the service, with retries on rate limits\<close>

definition system_content :: string where
  "system_content =
     ''You are PocketSmart AI, an expert personal-finance advisor. Respond with well-structured markdown.''"

definition chat_request_of :: "server \<Rightarrow> string \<Rightarrow> chat_request" where
  "chat_request_of srv prompt =
     \<lparr>model = srv_MODEL srv,
      messages = [(''system'', system_content), (''user'', prompt)],
      temperature = ''0.7'',
      max_tokens = 2048\<rparr>"

definition max_retries :: nat where
  "max_retries = 3"

text \<open>
  The body of the inner \<open>try\<close> of one attempt: the call, \<open>response.choices[0]\<close> (an
  IndexError on a completion without choices) and the answer built from it.
\<close>

definition try_create :: "api \<Rightarrow> nat \<Rightarrow> chat_request \<Rightarrow> string + 'f response" where
  "try_create service attempt req =
     (case service attempt req of
        ApiFailure e \<Rightarrow> Inl e
      | Completion choices \<Rightarrow>
          (case choices of
             [] \<Rightarrow> Inl ''list index out of range''
           | content # _ \<Rightarrow> Inr (advice_response content)))"

definition is_rate_limit :: "'f runtime \<Rightarrow> string \<Rightarrow> bool" where
  "is_rate_limit rt api_err =
     (let err_str = str_lower rt api_err
      in str_contains ''rate'' err_str \<or> str_contains ''429'' err_str
         \<or> str_contains ''limit'' err_str)"

definition rate_limit_response :: "'f response" where
  "rate_limit_response =
     error_response ''Groq API rate limit reached. Please wait 30-60 seconds and try again.'' 429"

definition retry_warning :: "nat \<Rightarrow> string" where
  "retry_warning attempt =
     ''Rate limited (attempt '' @ str_nat (attempt + 1) @ ''), retrying in 10s...''"

definition retries_error :: "string \<Rightarrow> string" where
  "retries_error api_err =
     ''Rate limit exceeded after '' @ str_nat max_retries @ '' retries: '' @ api_err"

text \<open>
  \<open>for attempt in range(max_retries)\<close>, over the attempts still to make. The result
  \<open>Next ()\<close> is the loop running out, after which the function would end without a
  \<open>return\<close>.
\<close>

fun retry_loop ::
    "'f runtime \<Rightarrow> server \<Rightarrow> api \<Rightarrow> string \<Rightarrow> nat list \<Rightarrow> ('f, unit) flow \<times> event list" where
  "retry_loop rt srv service prompt [] = (Next (), [])"
| "retry_loop rt srv service prompt (attempt # rest) =
     (case try_create service attempt (chat_request_of srv prompt) of
        Inr resp \<Rightarrow> (Return resp, [ChatCreate (chat_request_of srv prompt)])
      | Inl api_err \<Rightarrow>
          if is_rate_limit rt api_err then
            if attempt < max_retries - 1 then
              (fst (retry_loop rt srv service prompt rest),
               [ChatCreate (chat_request_of srv prompt),
                LogWarning (retry_warning attempt), Sleep 10]
               @ snd (retry_loop rt srv service prompt rest))
            else
              (Return rate_limit_response,
               [ChatCreate (chat_request_of srv prompt), LogError (retries_error api_err)])
          else (Raise api_err, [ChatCreate (chat_request_of srv prompt)]))"

definition call_groq ::
    "'f runtime \<Rightarrow> server \<Rightarrow> api \<Rightarrow> string \<Rightarrow> ('f, unit) flow \<times> event list" where
  "call_groq rt srv service prompt = retry_loop rt srv service prompt [0..<max_retries]"

subsection \<open>The handler\<close>

text \<open>The block under the outer \<open>try\<close>.\<close>

definition analyze_inner ::
    "'f runtime \<Rightarrow> server \<Rightarrow> api \<Rightarrow> 'f request \<Rightarrow> ('f, unit) flow \<times> event list" where
  "analyze_inner rt srv service req =
     (case prepare rt req of
        Next prompt \<Rightarrow> call_groq rt srv service prompt
      | Return r \<Rightarrow> (Return r, [])
      | Raise e \<Rightarrow> (Raise e, []))"

definition is_auth_error :: "'f runtime \<Rightarrow> string \<Rightarrow> bool" where
  "is_auth_error rt exc =
     (let error_msg = str_lower rt exc
      in str_contains ''api_key'' error_msg \<or> str_contains ''invalid'' error_msg
         \<or> str_contains ''authenticate'' error_msg)"

definition auth_response :: "'f response" where
  "auth_response =
     error_response ''Invalid API key. Please check your GROQ_API_KEY in the .env file.'' 401"

definition failure_response :: "'f response" where
  "failure_response =
     error_response ''Something went wrong while generating advice. Please try again.'' 500"

definition on_exception :: "'f runtime \<Rightarrow> string \<Rightarrow> 'f response" where
  "on_exception rt exc = (if is_auth_error rt exc then auth_response else failure_response)"

text \<open>
  \<open>analyze\<close>: the response (\<open>None\<close> when the function ends without a \<open>return\<close>) and
  the effects of the run, in order.
\<close>

definition analyze ::
    "'f runtime \<Rightarrow> server \<Rightarrow> api \<Rightarrow> 'f request \<Rightarrow> 'f response option \<times> event list" where
  "analyze rt srv service req =
     (case analyze_inner rt srv service req of
        (Return r, evs) \<Rightarrow> (Some r, evs)
      | (Raise exc, evs) \<Rightarrow>
          (Some (on_exception rt exc), evs @ [LogError (''Analysis error: '' @ exc)])
      | (Next u, evs) \<Rightarrow> (None, evs))"

text \<open>The calls to the service among the effects, and the pauses between them.\<close>

fun is_call :: "event \<Rightarrow> bool" where
  "is_call (ChatCreate r) = True"
| "is_call e = False"

fun is_log :: "event \<Rightarrow> bool" where
  "is_log (LogWarning m) = True"
| "is_log (LogError m) = True"
| "is_log e = False"

definition calls :: "event list \<Rightarrow> event list" where
  "calls evs = filter is_call evs"


section \<open>A small runtime for evaluation\<close>

text \<open>
  Here a float is a whole number (an \<open>int\<close>) and text is ASCII. On whole numbers below
  \<open>2^53\<close> in magnitude written in plain decimal digits, and on ASCII text, the functions
  below compute what CPython computes; every evaluation in this theory stays there.
\<close>

definition ascii_space :: "char \<Rightarrow> bool" where
  "ascii_space c = (c \<in> set [CHR 0x20, CHR 0x09, CHR 0x0A, CHR 0x0B, CHR 0x0C, CHR 0x0D,
                             CHR 0x1C, CHR 0x1D, CHR 0x1E, CHR 0x1F])"

definition ascii_strip :: "string \<Rightarrow> string" where
  "ascii_strip s = rev (dropWhile ascii_space (rev (dropWhile ascii_space s)))"

definition ascii_upper_case :: "char \<Rightarrow> bool" where
  "ascii_upper_case c = (65 \<le> (of_char c :: nat) \<and> (of_char c :: nat) \<le> 90)"

definition ascii_lower_case :: "char \<Rightarrow> bool" where
  "ascii_lower_case c = (97 \<le> (of_char c :: nat) \<and> (of_char c :: nat) \<le> 122)"

definition to_lower :: "char \<Rightarrow> char" where
  "to_lower c = (if ascii_upper_case c then char_of ((of_char c :: nat) + 32) else c)"

definition to_upper :: "char \<Rightarrow> char" where
  "to_upper c = (if ascii_lower_case c then char_of ((of_char c :: nat) - 32) else c)"

definition ascii_lower :: "string \<Rightarrow> string" where
  "ascii_lower s = map to_lower s"

text \<open>\<open>title()\<close>: a letter is upper case after a character without case, lower case after a letter.\<close>

fun ascii_title_from :: "bool \<Rightarrow> string \<Rightarrow> string" where
  "ascii_title_from previous_cased [] = []"
| "ascii_title_from previous_cased (c # cs) =
     (if ascii_upper_case c \<or> ascii_lower_case c
      then (if previous_cased then to_lower c else to_upper c) # ascii_title_from True cs
      else c # ascii_title_from False cs)"

definition ascii_title :: "string \<Rightarrow> string" where
  "ascii_title s = ascii_title_from False s"

definition is_digit :: "char \<Rightarrow> bool" where
  "is_digit c = (48 \<le> (of_char c :: nat) \<and> (of_char c :: nat) \<le> 57)"

definition digits_value :: "string \<Rightarrow> int" where
  "digits_value ds = foldl (\<lambda>acc c. 10 * acc + (int (of_char c) - 48)) 0 ds"

definition whole_of_str :: "string \<Rightarrow> int option" where
  "whole_of_str s =
     (case ascii_strip s of
        [] \<Rightarrow> None
      | c # cs \<Rightarrow>
          if c = CHR ''-'' \<and> cs \<noteq> [] \<and> list_all is_digit cs then Some (- digits_value cs)
          else if c = CHR ''+'' \<and> cs \<noteq> [] \<and> list_all is_digit cs then Some (digits_value cs)
          else if list_all is_digit (c # cs) then Some (digits_value (c # cs))
          else None)"

fun grouped :: "nat \<Rightarrow> string" where
  "grouped n =
     (if n < 1000 then str_nat n
      else grouped (n div 1000) @ '','' @
           [char_of (48 + n mod 1000 div 100), char_of (48 + n mod 100 div 10),
            char_of (48 + n mod 10)])"

definition whole_format :: "int \<Rightarrow> string" where
  "whole_format x = (if x < 0 then ''-'' else '''') @ grouped (nat \<bar>x\<bar>) @ ''.00''"

definition whole_runtime :: "int runtime" where
  "whole_runtime =
     \<lparr>float_of_int = Some,
      float_of_str = whole_of_str,
      float_zero = 0,
      float_is_zero = (\<lambda>x. x = 0),
      float_lt_zero = (\<lambda>x. x < 0),
      float_add = (+),
      float_sub = (-),
      float_format = whole_format,
      str_strip = ascii_strip,
      str_lower = ascii_lower,
      str_title = ascii_title\<rparr>"

definition a_server :: server where
  "a_server = \<lparr>srv_client = ''gsk_key'', srv_MODEL = ''llama-3.3-70b-versatile''\<rparr>"

text \<open>Services: one that answers at once, one that is always rate limited, and others.\<close>

definition answering :: api where
  "answering attempt req = Completion [Some ''Spend less.'']"

definition rate_limited :: api where
  "rate_limited attempt req = ApiFailure ''Error code: 429 - Rate limit reached''"

definition answering_third :: api where
  "answering_third attempt req =
     (if attempt < 2 then ApiFailure ''Error code: 429 - Rate limit reached''
      else Completion [Some ''Spend less.''])"


definition unreachable :: api where
  "unreachable attempt req = ApiFailure ''Connection error.''"

definition a_body :: "int pyval" where
  "a_body =
     PDict [(''income'', PInt 50000),
            (''expenses'', PDict [(''rent'', PInt 15000), (''eating_out'', PStr ''2500''),
                                  (''gym'', PNone)])]"

section \<open>Notions used to state the properties\<close>

text \<open>
  Attempt number \<open>attempt\<close> fails with a rate-limit error: the call raises, or the
  completion has no choice to index, and the handler's test on the text of the
  exception holds.
\<close>

definition failure_text :: "api \<Rightarrow> chat_request \<Rightarrow> nat \<Rightarrow> string" where
  "failure_text service req attempt =
     (case service attempt req of
        ApiFailure e \<Rightarrow> e | Completion choices \<Rightarrow> ''list index out of range'')"

definition rate_limited_at :: "'f runtime \<Rightarrow> api \<Rightarrow> chat_request \<Rightarrow> nat \<Rightarrow> bool" where
  "rate_limited_at rt service req attempt =
     (case service attempt req of
        ApiFailure e \<Rightarrow> is_rate_limit rt e
      | Completion choices \<Rightarrow> choices = [] \<and> is_rate_limit rt ''list index out of range'')"

text \<open>What an attempt that is not rate limited ends the loop with.\<close>

definition attempt_outcome :: "api \<Rightarrow> chat_request \<Rightarrow> nat \<Rightarrow> ('f, unit) flow" where
  "attempt_outcome service req attempt =
     (case try_create service attempt req of Inr resp \<Rightarrow> Return resp | Inl e \<Rightarrow> Raise e)"

text \<open>The number of calls made in a run, and \<open>n\<close> calls with a pause of 10 seconds between neighbours.\<close>

definition attempts :: "event list \<Rightarrow> nat" where
  "attempts evs = length (calls evs)"

fun spaced_calls :: "chat_request \<Rightarrow> nat \<Rightarrow> event list" where
  "spaced_calls req 0 = []"
| "spaced_calls req (Suc 0) = [ChatCreate req]"
| "spaced_calls req (Suc (Suc n)) = ChatCreate req # Sleep 10 # spaced_calls req (Suc n)"

definition without_logs :: "event list \<Rightarrow> event list" where
  "without_logs evs = filter (\<lambda>e. \<not> is_log e) evs"

definition a_prompt :: string where
  "a_prompt =
     build_prompt whole_runtime 50000 [(''rent'', 15000), (''eating_out'', 2500), (''gym'', 0)]"

text \<open>The two fields the handler reads from a body that is a JSON object.\<close>

definition income_field :: "(string \<times> 'f pyval) list \<Rightarrow> 'f pyval" where
  "income_field kvs = (case map_of kvs ''income'' of None \<Rightarrow> PNone | Some v \<Rightarrow> v)"

definition expenses_field :: "(string \<times> 'f pyval) list \<Rightarrow> 'f pyval" where
  "expenses_field kvs = (case map_of kvs ''expenses'' of None \<Rightarrow> PDict [] | Some v \<Rightarrow> v)"

definition json_object :: "'f pyval \<Rightarrow> bool" where
  "json_object v = (case v of PDict kvs \<Rightarrow> True | _ \<Rightarrow> False)"

definition null_amount_body :: "int pyval" where
  "null_amount_body =
     PDict [(''income'', PInt 50000), (''expenses'', PDict [(''gym'', PNone)])]"




text \<open>
  An amount that the loop rejects with the answer 400: it is truthy and \<open>float()\<close>
  raises ValueError or TypeError on it, or gives a value below zero. An amount on which
  \<open>float()\<close> overflows. An amount that the loop accepts: it is falsy, or \<open>float()\<close> gives
  a value that is not below zero.
\<close>

definition amount_rejected :: "'f runtime \<Rightarrow> 'f pyval \<Rightarrow> bool" where
  "amount_rejected rt amount =
     (truthy rt amount
      \<and> (case py_float rt amount of
            Inl ValueError \<Rightarrow> True
          | Inl TypeError \<Rightarrow> True
          | Inl OverflowError \<Rightarrow> False
          | Inr x \<Rightarrow> float_lt_zero rt x))"

definition amount_overflows :: "'f runtime \<Rightarrow> 'f pyval \<Rightarrow> bool" where
  "amount_overflows rt amount = (truthy rt amount \<and> py_float rt amount = Inl OverflowError)"

definition amount_accepted :: "'f runtime \<Rightarrow> 'f pyval \<Rightarrow> bool" where
  "amount_accepted rt amount =
     (\<not> truthy rt amount
      \<or> (case py_float rt amount of Inr x \<Rightarrow> \<not> float_lt_zero rt x | Inl e \<Rightarrow> False))"


section \<open>Start-up\<close>

text \<open>
  Claim C10. When the variable \<open>GROQ_API_KEY\<close>, as \<open>os.getenv\<close> reads it after
  \<open>load_dotenv()\<close>, is unset or empty, the module body stops with the RuntimeError
  before the application object exists and before any route is registered; no path is
  ever served.
\<close>

theorem missing_key_stops_module:
  assumes "os_getenv (load_dotenv dotenv env) ''GROQ_API_KEY'' = None
           \<or> os_getenv (load_dotenv dotenv env) ''GROQ_API_KEY'' = Some ''''"
  shows "fst (run_module dotenv env)
           = Some ''GROQ_API_KEY not found. Please set it in your .env file.''
         \<and> routes (snd (run_module dotenv env)) = []
         \<and> \<not> app_created (snd (run_module dotenv env))
         \<and> (\<forall>path. \<not> serves (run_module dotenv env) path)"
  using assms by (auto simp: run_module_def Let_def module_start_def serves_def)

text \<open>
  An empty variable in the environment is not replaced by the value of the \<open>.env\<close>
  file, and the module stops.
\<close>

theorem missing_key_stops_module_witness:
  "os_getenv (load_dotenv [''GROQ_API_KEY'' \<mapsto> ''gsk_live''] [''GROQ_API_KEY'' \<mapsto> ''''])
       ''GROQ_API_KEY'' = Some ''''
   \<and> fst (run_module [''GROQ_API_KEY'' \<mapsto> ''gsk_live''] [''GROQ_API_KEY'' \<mapsto> ''''])
       = Some ''GROQ_API_KEY not found. Please set it in your .env file.''
   \<and> routes (snd (run_module [''GROQ_API_KEY'' \<mapsto> ''gsk_live''] [''GROQ_API_KEY'' \<mapsto> ''''])) = []"
proof -
  have h: "os_getenv (load_dotenv [''GROQ_API_KEY'' \<mapsto> ''gsk_live''] [''GROQ_API_KEY'' \<mapsto> ''''])
       ''GROQ_API_KEY'' = Some ''''"
    by (simp add: os_getenv_def load_dotenv_def)
  from missing_key_stops_module
         [of "[''GROQ_API_KEY'' \<mapsto> ''gsk_live'']" "[''GROQ_API_KEY'' \<mapsto> '''']"] h
  show ?thesis by blast
qed

text \<open>With a key the module runs to its end and \<open>/analyze\<close> is served.\<close>

lemma configured_key_serves:
  "serves (run_module Map.empty [''GROQ_API_KEY'' \<mapsto> ''gsk_live'']) ''/analyze''"
  by (simp add: run_module_def Let_def module_start_def serves_def os_getenv_def load_dotenv_def)

section \<open>The retry loop\<close>

lemma upt_max_retries: "[0..<max_retries] = [0, 1, 2]"
  by (simp add: max_retries_def upt_rec)

lemma retry_rate_limited:
  "rate_limited_at rt service (chat_request_of srv prompt) attempt \<Longrightarrow>
   retry_loop rt srv service prompt (attempt # rest) =
     (if attempt < max_retries - 1
      then (fst (retry_loop rt srv service prompt rest),
            [ChatCreate (chat_request_of srv prompt), LogWarning (retry_warning attempt), Sleep 10]
            @ snd (retry_loop rt srv service prompt rest))
      else (Return rate_limit_response,
            [ChatCreate (chat_request_of srv prompt),
             LogError (retries_error (failure_text service (chat_request_of srv prompt) attempt))]))"
  by (auto simp: rate_limited_at_def failure_text_def try_create_def
           split: api_result.splits list.splits)

lemma retry_not_rate_limited:
  "\<not> rate_limited_at rt service (chat_request_of srv prompt) attempt \<Longrightarrow>
   retry_loop rt srv service prompt (attempt # rest) =
     (attempt_outcome service (chat_request_of srv prompt) attempt,
      [ChatCreate (chat_request_of srv prompt)])"
  by (auto simp: rate_limited_at_def try_create_def attempt_outcome_def
           split: api_result.splits list.splits)

text \<open>The four ways the three attempts can go.\<close>

lemma call_groq_cases:
  fixes rt :: "'f runtime"
  defines "req \<equiv> \<lambda>srv prompt. chat_request_of srv prompt"
  shows "call_groq rt srv service prompt =
     (if \<not> rate_limited_at rt service (req srv prompt) 0
      then (attempt_outcome service (req srv prompt) 0, [ChatCreate (req srv prompt)])
      else if \<not> rate_limited_at rt service (req srv prompt) 1
      then (attempt_outcome service (req srv prompt) 1,
            [ChatCreate (req srv prompt), LogWarning (retry_warning 0), Sleep 10,
             ChatCreate (req srv prompt)])
      else if \<not> rate_limited_at rt service (req srv prompt) 2
      then (attempt_outcome service (req srv prompt) 2,
            [ChatCreate (req srv prompt), LogWarning (retry_warning 0), Sleep 10,
             ChatCreate (req srv prompt), LogWarning (retry_warning 1), Sleep 10,
             ChatCreate (req srv prompt)])
      else (Return rate_limit_response,
            [ChatCreate (req srv prompt), LogWarning (retry_warning 0), Sleep 10,
             ChatCreate (req srv prompt), LogWarning (retry_warning 1), Sleep 10,
             ChatCreate (req srv prompt),
             LogError (retries_error (failure_text service (req srv prompt) 2))]))"
  unfolding req_def call_groq_def upt_max_retries
  by (simp add: retry_rate_limited retry_not_rate_limited max_retries_def del: retry_loop.simps)

lemma analyze_after_prepare:
  "prepare rt req = Next prompt \<Longrightarrow>
   analyze rt srv service req =
     (case call_groq rt srv service prompt of
        (Return r, evs) \<Rightarrow> (Some r, evs)
      | (Raise exc, evs) \<Rightarrow>
          (Some (on_exception rt exc), evs @ [LogError (''Analysis error: '' @ exc)])
      | (Next u, evs) \<Rightarrow> (None, evs))"
  by (simp add: analyze_def analyze_inner_def)

lemma events_after_prepare:
  "prepare rt req = Next prompt \<Longrightarrow>
   without_logs (snd (analyze rt srv service req))
     = without_logs (snd (call_groq rt srv service prompt))
   \<and> calls (snd (analyze rt srv service req)) = calls (snd (call_groq rt srv service prompt))"
  by (auto simp: analyze_after_prepare without_logs_def calls_def split: prod.splits flow.splits)

lemma call_groq_events:
  "without_logs (snd (call_groq rt srv service prompt))
     = spaced_calls (chat_request_of srv prompt) (attempts (snd (call_groq rt srv service prompt)))
   \<and> attempts (snd (call_groq rt srv service prompt)) =
       (if \<not> rate_limited_at rt service (chat_request_of srv prompt) 0 then 1
        else if \<not> rate_limited_at rt service (chat_request_of srv prompt) 1 then 2 else 3)"
  by (simp add: call_groq_cases without_logs_def attempts_def calls_def numeral_2_eq_2 numeral_3_eq_3)

lemma attempts_after_prepare:
  "prepare rt req = Next prompt \<Longrightarrow>
   attempts (snd (analyze rt srv service req)) =
     (if \<not> rate_limited_at rt service (chat_request_of srv prompt) 0 then 1
      else if \<not> rate_limited_at rt service (chat_request_of srv prompt) 1 then 2 else 3)"
  using events_after_prepare [of rt req prompt srv service] call_groq_events [of rt srv service prompt]
  by (simp add: attempts_def)

lemma response_after_prepare:
  "prepare rt req = Next prompt \<Longrightarrow>
   fst (analyze rt srv service req) =
     (let req' = chat_request_of srv prompt;
          last_outcome = (\<lambda>k. case try_create service k req' of
                             Inr resp \<Rightarrow> Some resp | Inl e \<Rightarrow> Some (on_exception rt e))
      in if \<not> rate_limited_at rt service req' 0 then last_outcome 0
         else if \<not> rate_limited_at rt service req' 1 then last_outcome 1
         else if \<not> rate_limited_at rt service req' 2 then last_outcome 2
         else Some rate_limit_response)"
  by (simp add: analyze_after_prepare call_groq_cases attempt_outcome_def Let_def split: sum.splits)

lemma status_on_exception: "status (on_exception rt e :: 'f response) \<noteq> 429"
  by (simp add: on_exception_def auth_response_def failure_response_def error_response_def)

lemma try_create_status: "try_create service k req = Inr r \<Longrightarrow> status r = 200"
  by (auto simp: try_create_def advice_response_def split: api_result.splits list.splits)

subsection \<open>Evaluation of the example request\<close>

lemma prepare_a_body: "prepare whole_runtime (Body a_body) = Next a_prompt"
  by (simp add: prepare_def get_json_def data_get_def a_body_def validate_income_def
       float_not_negative_def except_value_type_def whole_runtime_def validate_expenses_def
       parse_amount_def whole_of_str_def ascii_strip_def ascii_space_def is_digit_def
       digits_value_def a_prompt_def)

lemma rate_limit_text: "is_rate_limit whole_runtime ''Error code: 429 - Rate limit reached''"
  by (simp add: is_rate_limit_def whole_runtime_def ascii_lower_def to_lower_def
       ascii_upper_case_def)

lemma rate_limited_always: "rate_limited_at whole_runtime rate_limited req k"
  by (simp add: rate_limited_at_def rate_limited_def rate_limit_text)

lemma answering_third_limited:
  "rate_limited_at whole_runtime answering_third req k = (k < 2)"
  by (simp add: rate_limited_at_def answering_third_def rate_limit_text)

subsection \<open>At most three attempts, ten seconds apart\<close>

text \<open>
  Claim C4. In a run that reaches the call of the service, between one and three calls
  are made; call number \<open>k + 1\<close> is made exactly when call number \<open>k\<close> was made, failed
  with a rate-limit error and \<open>k + 1\<close> is below \<open>max_retries = 3\<close>; and, logging
  apart, the effects of the run are those calls with one \<open>sleep(10)\<close> between each two
  neighbours and nothing else.
\<close>

theorem retry_policy:
  assumes "prepare rt req = Next prompt"
  shows "1 \<le> attempts (snd (analyze rt srv service req))
         \<and> attempts (snd (analyze rt srv service req)) \<le> 3
         \<and> (\<forall>k. (Suc k < attempts (snd (analyze rt srv service req)))
                = (k < attempts (snd (analyze rt srv service req)) \<and> Suc k < max_retries
                   \<and> rate_limited_at rt service (chat_request_of srv prompt) k))
         \<and> without_logs (snd (analyze rt srv service req))
             = spaced_calls (chat_request_of srv prompt)
                 (attempts (snd (analyze rt srv service req)))"
proof -
  let ?n = "attempts (snd (analyze rt srv service req))"
  let ?rl = "rate_limited_at rt service (chat_request_of srv prompt)"
  have val: "?n = (if \<not> ?rl 0 then 1 else if \<not> ?rl 1 then 2 else 3)"
    by (rule attempts_after_prepare [OF assms])
  have bounds: "1 \<le> ?n \<and> ?n \<le> 3"
    using val by simp
  have further: "(Suc k < ?n) = (k < ?n \<and> Suc k < max_retries \<and> ?rl k)" for k
  proof -
    consider "k = 0" | "k = 1" | "2 \<le> k" by arith
    then show ?thesis
    proof cases
      case 1 then show ?thesis using val by (simp add: max_retries_def)
    next
      case 2 then show ?thesis using val by (simp add: max_retries_def)
    next
      case 3 then show ?thesis using val by (auto simp: max_retries_def)
    qed
  qed
  have spaced: "without_logs (snd (analyze rt srv service req))
                  = spaced_calls (chat_request_of srv prompt) ?n"
    using events_after_prepare [OF assms, of srv service]
      call_groq_events [of rt srv service prompt]
    by (simp add: attempts_def)
  show ?thesis using bounds further spaced by blast
qed

text \<open>A service that is rate limited twice and then answers is called three times.\<close>

theorem retry_policy_witness:
  "prepare whole_runtime (Body a_body) = Next a_prompt
   \<and> attempts (snd (analyze whole_runtime a_server answering_third (Body a_body))) = 3
   \<and> without_logs (snd (analyze whole_runtime a_server answering_third (Body a_body)))
       = [ChatCreate (chat_request_of a_server a_prompt), Sleep 10,
          ChatCreate (chat_request_of a_server a_prompt), Sleep 10,
          ChatCreate (chat_request_of a_server a_prompt)]"
proof -
  let ?n = "attempts (snd (analyze whole_runtime a_server answering_third (Body a_body)))"
  note p = retry_policy [OF prepare_a_body, of a_server answering_third]
  have b: "1 \<le> ?n" "?n \<le> 3" using p by blast+
  have "(Suc 0 < ?n) = (0 < ?n \<and> Suc 0 < max_retries
          \<and> rate_limited_at whole_runtime answering_third (chat_request_of a_server a_prompt) 0)"
    using p by blast
  then have one: "1 < ?n" using b by (simp add: answering_third_limited max_retries_def)
  have "(Suc 1 < ?n) = (1 < ?n \<and> Suc 1 < max_retries
          \<and> rate_limited_at whole_runtime answering_third (chat_request_of a_server a_prompt) 1)"
    using p by blast
  then have "2 < ?n" using one by (simp add: answering_third_limited max_retries_def)
  then have n: "?n = 3" using b by simp
  have "without_logs (snd (analyze whole_runtime a_server answering_third (Body a_body)))
          = spaced_calls (chat_request_of a_server a_prompt) ?n"
    using p by blast
  then show ?thesis using n prepare_a_body by (simp add: numeral_3_eq_3)
qed

subsection \<open>The answer after the last attempt\<close>

text \<open>
  Claim C5. In a run that reaches the call of the service: when a third attempt is
  made and it fails with a rate-limit error, the response is the fixed error object with
  status 429; a response with status 429 comes from nowhere else; and a rate-limit
  failure of the first or second attempt hands the decision to the remaining attempts.
\<close>

theorem exhausted_retries:
  assumes "prepare rt req = Next prompt"
  shows "(attempts (snd (analyze rt srv service req)) = 3
            \<and> rate_limited_at rt service (chat_request_of srv prompt) 2
          \<longrightarrow> fst (analyze rt srv service req)
               = Some \<lparr>body = PDict [(''error'', PStr
                   ''Groq API rate limit reached. Please wait 30-60 seconds and try again.'')],
                  status = 429\<rparr>)
         \<and> (\<forall>r. fst (analyze rt srv service req) = Some r \<and> status r = 429
              \<longrightarrow> attempts (snd (analyze rt srv service req)) = 3
                  \<and> rate_limited_at rt service (chat_request_of srv prompt) 2)
         \<and> (\<forall>k rest. k < 2 \<and> rate_limited_at rt service (chat_request_of srv prompt) k
              \<longrightarrow> fst (retry_loop rt srv service prompt (k # rest))
                  = fst (retry_loop rt srv service prompt rest))"
proof -
  let ?rl = "rate_limited_at rt service (chat_request_of srv prompt)"
  note n = attempts_after_prepare [OF assms, of srv service]
  note r = response_after_prepare [OF assms, of srv service]
  have a: "attempts (snd (analyze rt srv service req)) = 3 \<and> ?rl 2
           \<longrightarrow> fst (analyze rt srv service req)
               = Some \<lparr>body = PDict [(''error'', PStr
                   ''Groq API rate limit reached. Please wait 30-60 seconds and try again.'')],
                  status = 429\<rparr>"
    using n r by (auto simp: rate_limit_response_def error_response_def split: if_splits)
  have b: "fst (analyze rt srv service req) = Some r' \<and> status r' = 429
           \<longrightarrow> attempts (snd (analyze rt srv service req)) = 3 \<and> ?rl 2" for r'
    using n r status_on_exception [of rt]
    by (auto simp: Let_def split: if_splits sum.splits dest: try_create_status)
  have c: "k < 2 \<and> ?rl k \<longrightarrow> fst (retry_loop rt srv service prompt (k # rest))
                  = fst (retry_loop rt srv service prompt rest)" for k rest
    by (simp add: retry_rate_limited max_retries_def del: retry_loop.simps)
  show ?thesis using a b c by blast
qed

text \<open>Against a service that is always rate limited the run ends with 429.\<close>

theorem exhausted_retries_witness:
  "prepare whole_runtime (Body a_body) = Next a_prompt
   \<and> attempts (snd (analyze whole_runtime a_server rate_limited (Body a_body))) = 3
   \<and> rate_limited_at whole_runtime rate_limited (chat_request_of a_server a_prompt) 2
   \<and> fst (analyze whole_runtime a_server rate_limited (Body a_body))
       = Some \<lparr>body = PDict [(''error'', PStr
           ''Groq API rate limit reached. Please wait 30-60 seconds and try again.'')],
          status = 429\<rparr>"
proof -
  have n: "attempts (snd (analyze whole_runtime a_server rate_limited (Body a_body))) = 3"
    by (simp add: attempts_after_prepare [OF prepare_a_body] rate_limited_always)
  show ?thesis
    using exhausted_retries [OF prepare_a_body, of a_server rate_limited] n
      rate_limited_always [of "chat_request_of a_server a_prompt" 2] prepare_a_body
    by blast
qed

section \<open>Validation and the responses\<close>

lemma prepare_bad_body: "prepare rt (BadBody e) = Raise e"
  by (simp add: prepare_def get_json_def)

lemma prepare_not_dict: "\<not> json_object data \<Longrightarrow> prepare rt (Body data) = Raise (no_get_text data)"
  by (cases data) (simp_all add: prepare_def get_json_def data_get_def json_object_def)

lemma prepare_dict:
  "prepare rt (Body (PDict kvs)) =
     flow_bind (validate_income rt (income_field kvs)) (\<lambda>income.
     flow_bind (validate_expenses rt (expenses_field kvs)) (\<lambda>parsed_expenses.
     Next (build_prompt rt income parsed_expenses)))"
  by (simp add: prepare_def get_json_def data_get_def income_field_def expenses_field_def)

lemma except_value_type_Return:
  "except_value_type x resp = Return r \<Longrightarrow> r = resp"
  by (auto simp: except_value_type_def split: sum.splits float_error.splits)

lemma except_value_type_Raise:
  "except_value_type x resp = Raise e \<Longrightarrow> e = overflow_text \<and> x = Inl OverflowError"
  by (auto simp: except_value_type_def split: sum.splits float_error.splits)

lemma validate_income_Return:
  "validate_income rt v = Return r \<Longrightarrow>
   r = error_response ''Monthly income is required.'' 400
   \<or> r = error_response ''Income must be a valid positive number.'' 400"
  by (auto simp: validate_income_def split: if_splits dest: except_value_type_Return)

lemma parse_expenses_Return:
  "parse_expenses rt es acc = Return r \<Longrightarrow> \<exists>c \<in> fst ` set es. r = invalid_amount c"
proof (induction es arbitrary: acc)
  case Nil
  then show ?case by simp
next
  case (Cons e es)
  obtain c a where e: "e = (c, a)" by (cases e)
  show ?case
  proof (cases "except_value_type (parse_amount rt a) (invalid_amount c :: 'a response)")
    case (Next v)
    with Cons e show ?thesis by auto
  next
    case (Return r')
    with Cons.prems e have "r = invalid_amount c"
      by (auto dest: except_value_type_Return)
    with e show ?thesis by auto
  next
    case (Raise x)
    with Cons.prems e show ?thesis by simp
  qed
qed

lemma validate_expenses_Return:
  "validate_expenses rt v = Return r \<Longrightarrow> r = no_expenses \<or> (\<exists>c. r = invalid_amount c)"
  by (auto simp: validate_expenses_def split: pyval.splits if_splits dest: parse_expenses_Return)

lemma flow_bind_Return:
  "flow_bind m k = Return r \<Longrightarrow> m = Return r \<or> (\<exists>x. m = Next x \<and> k x = Return r)"
  by (cases m) auto

lemma flow_bind_Raise:
  "flow_bind m k = Raise e \<Longrightarrow> m = Raise e \<or> (\<exists>x. m = Next x \<and> k x = Raise e)"
  by (cases m) auto


lemma prepare_Return:
  "prepare rt req = Return r \<Longrightarrow> \<exists>m. r = error_response m 400"
proof (cases req)
  case (BadBody e)
  assume "prepare rt req = Return r"
  with BadBody show ?thesis by (simp add: prepare_bad_body)
next
  case (Body data)
  assume p: "prepare rt req = Return r"
  show ?thesis
  proof (cases "json_object data")
    case False
    with p Body show ?thesis by (simp add: prepare_not_dict)
  next
    case True
    then obtain kvs where "data = PDict kvs"
      by (cases data) (simp_all add: json_object_def)
    with p Body have "flow_bind (validate_income rt (income_field kvs)) (\<lambda>income.
       flow_bind (validate_expenses rt (expenses_field kvs)) (\<lambda>parsed_expenses.
       Next (build_prompt rt income parsed_expenses))) = Return r"
      by (simp add: prepare_dict)
    then show ?thesis
      by (auto dest!: flow_bind_Return validate_income_Return validate_expenses_Return
               simp: no_expenses_def invalid_amount_def)
  qed
qed

lemma prepare_no_calls:
  "prepare rt req = Return r \<Longrightarrow> analyze rt srv service req = (Some r, [])"
  by (simp add: analyze_def analyze_inner_def)

lemma prepare_raises:
  "prepare rt req = Raise e \<Longrightarrow>
   analyze rt srv service req = (Some (on_exception rt e), [LogError (''Analysis error: '' @ e)])"
  by (simp add: analyze_def analyze_inner_def)

lemma json_object_responses:
  "json_object (body (error_response m c))"
  "json_object (body (advice_response a))"
  "json_object (body (on_exception rt e))"
  "json_object (body rate_limit_response)"
  by (simp_all add: json_object_def error_response_def advice_response_def on_exception_def
       auth_response_def failure_response_def rate_limit_response_def)

lemma try_create_advice:
  "try_create service k req = Inr r \<Longrightarrow> \<exists>a. r = advice_response a"
  by (auto simp: try_create_def split: api_result.splits list.splits)

lemma analyze_responds:
  "\<exists>r. fst (analyze rt srv service req) = Some r \<and> json_object (body r)"
proof (cases "prepare rt req")
  case (Next prompt)
  show ?thesis
    unfolding response_after_prepare [OF Next] Let_def
    by (auto simp: json_object_responses split: sum.splits dest!: try_create_advice)
next
  case (Return r)
  then show ?thesis
    using prepare_Return [OF Return] by (auto simp: prepare_no_calls json_object_responses)
next
  case (Raise e)
  then show ?thesis by (simp add: prepare_raises json_object_responses)
qed

subsection \<open>Success, and the shape of every response\<close>

text \<open>
  Claim C7. Every run of \<open>analyze\<close> ends with a response whose body is a JSON object;
  and when a call that the run makes to the service returns a completion, the response
  has status 200 and its body is the object whose \<open>advice\<close> field is the content of
  the first choice.
\<close>

theorem advice_relayed:
  fixes rt :: "'f runtime"
  shows "(\<exists>r. fst (analyze rt srv service req) = Some r \<and> json_object (body r))
   \<and> (\<forall>prompt k content more.
        prepare rt req = Next prompt
        \<and> k < attempts (snd (analyze rt srv service req))
        \<and> service k (chat_request_of srv prompt) = Completion (content # more)
        \<longrightarrow> fst (analyze rt srv service req)
            = Some \<lparr>body = PDict [(''advice'',
                       (case content of None \<Rightarrow> PNone | Some s \<Rightarrow> PStr s))],
                  status = 200\<rparr>)"
proof -
  have "fst (analyze rt srv service req)
            = Some \<lparr>body = PDict [(''advice'',
                       (case content of None \<Rightarrow> PNone | Some s \<Rightarrow> PStr s))],
                  status = 200\<rparr>"
    if p: "prepare rt req = Next prompt"
      and k: "k < attempts (snd (analyze rt srv service req))"
      and s: "service k (chat_request_of srv prompt) = Completion (content # more)"
    for prompt k content more
  proof -
    let ?rl = "rate_limited_at rt service (chat_request_of srv prompt)"
    have nrl: "\<not> ?rl k" using s by (simp add: rate_limited_at_def)
    have tc: "try_create service k (chat_request_of srv prompt) = Inr (advice_response content :: 'f response)"
      using s by (simp add: try_create_def)
    note n = attempts_after_prepare [OF p, of srv service]
    consider "k = 0" | "k = 1" | "k = 2" | "3 \<le> k" by arith
    then show ?thesis
    proof cases
      case 1
      with nrl tc show ?thesis
        by (simp add: response_after_prepare [OF p] Let_def advice_response_def)
    next
      case 2
      with k n have "?rl 0" by (auto split: if_splits)
      with 2 nrl tc show ?thesis
        by (simp add: response_after_prepare [OF p] Let_def advice_response_def)
    next
      case 3
      with k n have "?rl 0 \<and> ?rl 1" by (auto split: if_splits)
      with 3 nrl tc show ?thesis
        by (simp add: response_after_prepare [OF p] Let_def advice_response_def)
    next
      case 4
      with k n show ?thesis by (auto split: if_splits)
    qed
  qed
  then show ?thesis using analyze_responds [of rt srv service req] by blast
qed

text \<open>The third attempt answers: its first choice is relayed.\<close>

theorem advice_relayed_witness:
  "prepare whole_runtime (Body a_body) = Next a_prompt
   \<and> 2 < attempts (snd (analyze whole_runtime a_server answering_third (Body a_body)))
   \<and> answering_third 2 (chat_request_of a_server a_prompt) = Completion [Some ''Spend less.'']
   \<and> fst (analyze whole_runtime a_server answering_third (Body a_body))
       = Some \<lparr>body = PDict [(''advice'', PStr ''Spend less.'')], status = 200\<rparr>"
proof -
  have n: "2 < attempts (snd (analyze whole_runtime a_server answering_third (Body a_body)))"
    by (simp add: attempts_after_prepare [OF prepare_a_body] answering_third_limited)
  have s: "answering_third 2 (chat_request_of a_server a_prompt) = Completion [Some ''Spend less.'']"
    by (simp add: answering_third_def)
  from advice_relayed [of whole_runtime a_server answering_third "Body a_body"]
  have "fst (analyze whole_runtime a_server answering_third (Body a_body))
       = Some \<lparr>body = PDict [(''advice'', (case Some ''Spend less.'' of
                                   None \<Rightarrow> PNone | Some s \<Rightarrow> PStr s))], status = 200\<rparr>"
    using prepare_a_body n s by blast
  then show ?thesis using prepare_a_body n s by simp
qed

subsection \<open>Exceptions that leave the inner block\<close>



lemma unreachable_text:
  "\<not> is_rate_limit whole_runtime ''Connection error.''
   \<and> \<not> is_auth_error whole_runtime ''Connection error.''"
  by code_simp





text \<open>A failure that is neither a rate limit nor an authentication error: 500.\<close>

lemma unreachable_service:
  "fst (analyze whole_runtime a_server unreachable (Body a_body))
     = Some \<lparr>body = PDict [(''error'', PStr
                ''Something went wrong while generating advice. Please try again.'')],
             status = 500\<rparr>"
  by (simp add: response_after_prepare [OF prepare_a_body] rate_limited_at_def
       unreachable_def unreachable_text try_create_def on_exception_def failure_response_def
       error_response_def)

subsection \<open>The income\<close>

lemma is_none_eq: "(case v of PNone \<Rightarrow> True | _ \<Rightarrow> False) = (v = PNone)"
  by (cases v) simp_all

lemma validate_income_required:
  "v = PNone \<or> blank_str rt v \<Longrightarrow>
   validate_income rt v = Return (error_response ''Monthly income is required.'' 400)"
  by (auto simp: validate_income_def)

lemma validate_income_invalid:
  "v \<noteq> PNone \<Longrightarrow> \<not> blank_str rt v \<Longrightarrow>
   py_float rt v = Inl ValueError \<or> py_float rt v = Inl TypeError
     \<or> (\<exists>x. py_float rt v = Inr x \<and> float_lt_zero rt x) \<Longrightarrow>
   validate_income rt v = Return (error_response ''Income must be a valid positive number.'' 400)"
  by (auto simp: validate_income_def is_none_eq float_not_negative_def except_value_type_def)

lemma validate_income_passes:
  "v \<noteq> PNone \<Longrightarrow> \<not> blank_str rt v \<Longrightarrow> py_float rt v = Inr x \<Longrightarrow> \<not> float_lt_zero rt x \<Longrightarrow>
   validate_income rt v = Next x"
  by (auto simp: validate_income_def is_none_eq float_not_negative_def except_value_type_def)

text \<open>
  Claim C2, as stated, fails: a request whose body is a JSON array has no income, and
  the handler answers 500, not 400 (\<open>data.get\<close> raises AttributeError, which the outer
  handler turns into the general error).
\<close>

theorem income_missing_counterexample:
  "analyze whole_runtime a_server answering (Body (PList []))
     = (Some \<lparr>body = PDict [(''error'', PStr
                 ''Something went wrong while generating advice. Please try again.'')],
              status = 500\<rparr>,
        [LogError (''Analysis error: '' @ [CHR 0x27] @ ''list'' @ [CHR 0x27]
                     @ '' object has no attribute '' @ [CHR 0x27] @ ''get'' @ [CHR 0x27])])"
proof -
  have t: "\<not> is_auth_error whole_runtime (no_get_text (PList [] :: int pyval))"
    by code_simp
  have p: "prepare whole_runtime (Body (PList [])) = Raise (no_get_text (PList [] :: int pyval))"
    by (simp add: prepare_not_dict json_object_def)
  show ?thesis
    using t by (simp add: prepare_raises [OF p] on_exception_def failure_response_def
                 error_response_def no_get_text_def)
qed

text \<open>
  Claim C2, amended. For every request whose body decodes to a JSON object: when the
  income is missing, null or blank the handler returns 400 with the error object
  \<open>Monthly income is required.\<close>; when \<open>float()\<close> rejects it with ValueError or TypeError,
  or its value is below zero, the handler returns 400 with the error object
  \<open>Income must be a valid positive number.\<close>; in both cases the run has no effect, so
  the service is not called. An income that is not null or blank and that \<open>float()\<close>
  converts to a value not below zero passes: the handler goes on to validate the
  expenses with that value. (An integer too large for \<open>float()\<close> is not covered.)
\<close>

theorem income_validation:
  fixes rt :: "'f runtime"
  shows
   "(income_field kvs = PNone \<or> blank_str rt (income_field kvs)
       \<longrightarrow> analyze rt srv service (Body (PDict kvs))
           = (Some \<lparr>body = PDict [(''error'', PStr ''Monthly income is required.'')],
                    status = 400\<rparr>, []))
    \<and> (income_field kvs \<noteq> PNone \<and> \<not> blank_str rt (income_field kvs)
        \<and> (py_float rt (income_field kvs) = Inl ValueError
            \<or> py_float rt (income_field kvs) = Inl TypeError
            \<or> (\<exists>x. py_float rt (income_field kvs) = Inr x \<and> float_lt_zero rt x))
       \<longrightarrow> analyze rt srv service (Body (PDict kvs))
           = (Some \<lparr>body = PDict [(''error'', PStr ''Income must be a valid positive number.'')],
                    status = 400\<rparr>, []))
    \<and> (\<forall>x. income_field kvs \<noteq> PNone \<and> \<not> blank_str rt (income_field kvs)
            \<and> py_float rt (income_field kvs) = Inr x \<and> \<not> float_lt_zero rt x
       \<longrightarrow> validate_income rt (income_field kvs) = Next x
           \<and> prepare rt (Body (PDict kvs))
               = flow_bind (validate_expenses rt (expenses_field kvs))
                   (\<lambda>parsed_expenses. Next (build_prompt rt x parsed_expenses)))"
proof -
  have a: "income_field kvs = PNone \<or> blank_str rt (income_field kvs)
       \<longrightarrow> analyze rt srv service (Body (PDict kvs))
           = (Some \<lparr>body = PDict [(''error'', PStr ''Monthly income is required.'')],
                    status = 400\<rparr>, [])"
  proof
    assume h: "income_field kvs = PNone \<or> blank_str rt (income_field kvs)"
    have "prepare rt (Body (PDict kvs))
            = Return (error_response ''Monthly income is required.'' 400)"
      by (simp add: prepare_dict validate_income_required [OF h])
    then show "analyze rt srv service (Body (PDict kvs))
           = (Some \<lparr>body = PDict [(''error'', PStr ''Monthly income is required.'')],
                    status = 400\<rparr>, [])"
      by (simp add: prepare_no_calls error_response_def)
  qed
  have b: "income_field kvs \<noteq> PNone \<and> \<not> blank_str rt (income_field kvs)
        \<and> (py_float rt (income_field kvs) = Inl ValueError
            \<or> py_float rt (income_field kvs) = Inl TypeError
            \<or> (\<exists>x. py_float rt (income_field kvs) = Inr x \<and> float_lt_zero rt x))
       \<longrightarrow> analyze rt srv service (Body (PDict kvs))
           = (Some \<lparr>body = PDict [(''error'', PStr ''Income must be a valid positive number.'')],
                    status = 400\<rparr>, [])"
  proof
    assume h: "income_field kvs \<noteq> PNone \<and> \<not> blank_str rt (income_field kvs)
        \<and> (py_float rt (income_field kvs) = Inl ValueError
            \<or> py_float rt (income_field kvs) = Inl TypeError
            \<or> (\<exists>x. py_float rt (income_field kvs) = Inr x \<and> float_lt_zero rt x))"
    then have "validate_income rt (income_field kvs)
                 = Return (error_response ''Income must be a valid positive number.'' 400)"
      by (intro validate_income_invalid) blast+
    then have "prepare rt (Body (PDict kvs))
            = Return (error_response ''Income must be a valid positive number.'' 400)"
      by (simp add: prepare_dict)
    then show "analyze rt srv service (Body (PDict kvs))
           = (Some \<lparr>body = PDict [(''error'', PStr ''Income must be a valid positive number.'')],
                    status = 400\<rparr>, [])"
      by (simp add: prepare_no_calls error_response_def)
  qed
  have c: "income_field kvs \<noteq> PNone \<and> \<not> blank_str rt (income_field kvs)
            \<and> py_float rt (income_field kvs) = Inr x \<and> \<not> float_lt_zero rt x
       \<longrightarrow> validate_income rt (income_field kvs) = Next x
           \<and> prepare rt (Body (PDict kvs))
               = flow_bind (validate_expenses rt (expenses_field kvs))
                   (\<lambda>parsed_expenses. Next (build_prompt rt x parsed_expenses))" for x
    by (simp add: prepare_dict validate_income_passes)
  show ?thesis using a b c by blast
qed

text \<open>No income, a negative income, and the income 0, which passes.\<close>

theorem income_validation_witness:
  "analyze whole_runtime a_server answering (Body (PDict [(''expenses'', PDict [])]))
     = (Some \<lparr>body = PDict [(''error'', PStr ''Monthly income is required.'')],
              status = 400\<rparr>, [])
   \<and> analyze whole_runtime a_server answering (Body (PDict [(''income'', PStr ''-5'')]))
     = (Some \<lparr>body = PDict [(''error'', PStr ''Income must be a valid positive number.'')],
              status = 400\<rparr>, [])
   \<and> validate_income whole_runtime (income_field [(''income'', PInt 0)]) = Next 0"
proof -
  have a: "income_field [(''expenses'', PDict [])] = (PNone :: int pyval)"
    by (simp add: income_field_def)
  have b: "income_field [(''income'', PStr ''-5'')] \<noteq> (PNone  :: int pyval)
        \<and> \<not> blank_str whole_runtime (income_field [(''income'', PStr ''-5'')])
        \<and> (\<exists>x. py_float whole_runtime (income_field [(''income'', PStr ''-5'')]) = Inr x
               \<and> float_lt_zero whole_runtime x)"
    by (simp add: income_field_def whole_runtime_def whole_of_str_def ascii_strip_def
         ascii_space_def is_digit_def digits_value_def)
  have c: "income_field [(''income'', PInt 0)] \<noteq> (PNone :: int pyval)
        \<and> \<not> blank_str whole_runtime (income_field [(''income'', PInt 0)])
        \<and> py_float whole_runtime (income_field [(''income'', PInt 0)]) = Inr 0
        \<and> \<not> float_lt_zero whole_runtime 0"
    by (simp add: income_field_def whole_runtime_def)
  show ?thesis
    using income_validation [of "[(''expenses'', PDict [])]" whole_runtime a_server answering] a
      income_validation [of "[(''income'', PStr ''-5'')]" whole_runtime a_server answering] b
      income_validation [of "[(''income'', PInt 0)]" whole_runtime a_server answering] c
    by blast
qed

subsection \<open>The expenses\<close>


lemma parse_expenses_Raise:
  "parse_expenses rt es acc = Raise x \<Longrightarrow>
   \<exists>(c, a) \<in> set es. parse_amount rt a = Inl OverflowError"
proof (induction es arbitrary: acc)
  case Nil
  then show ?case by simp
next
  case (Cons e es)
  obtain c a where e: "e = (c, a)" by (cases e)
  show ?case
  proof (cases "except_value_type (parse_amount rt a) (invalid_amount c :: 'a response)")
    case (Next v)
    with Cons e show ?thesis by auto
  next
    case (Return r')
    with Cons.prems e show ?thesis by simp
  next
    case (Raise y)
    then have "parse_amount rt a = Inl OverflowError"
      by (auto dest: except_value_type_Raise)
    with e show ?thesis by auto
  qed
qed

lemma parse_amount_overflow:
  "parse_amount rt a = Inl OverflowError \<Longrightarrow> py_float rt a = Inl OverflowError"
  by (auto simp: parse_amount_def split: if_splits sum.splits)

lemma parse_amount_rejected:
  "truthy rt a \<Longrightarrow>
   py_float rt a = Inl ValueError \<or> py_float rt a = Inl TypeError
     \<or> (\<exists>x. py_float rt a = Inr x \<and> float_lt_zero rt x) \<Longrightarrow>
   \<not> (\<exists>v. parse_amount rt a = Inr v)"
  by (auto simp: parse_amount_def)

lemma validate_income_Raise:
  "validate_income rt v = Raise e \<Longrightarrow> py_float rt v = Inl OverflowError"
  by (auto simp: validate_income_def float_not_negative_def
           split: if_splits sum.splits dest!: except_value_type_Raise)

lemma income_rejected_400:
  "py_float rt (income_field kvs) \<noteq> Inl OverflowError \<Longrightarrow>
   (\<exists>x. validate_income rt (income_field kvs) = Next x)
   \<or> (\<exists>m. prepare rt (Body (PDict kvs)) = Return (error_response m 400))"
proof (cases "validate_income rt (income_field kvs)")
  case (Next x)
  then show ?thesis by simp
next
  case (Return r)
  assume "py_float rt (income_field kvs) \<noteq> Inl OverflowError"
  from validate_income_Return [OF Return] Return show ?thesis
    by (auto simp: prepare_dict)
next
  case (Raise e)
  assume "py_float rt (income_field kvs) \<noteq> Inl OverflowError"
  with validate_income_Raise [OF Raise] show ?thesis by simp
qed

text \<open>
  Claim C3, as stated, fails: an amount that is \<open>null\<close> is not a number, yet the entry
  is accepted (\<open>float(amount) if amount else 0.0\<close> gives it the value 0.0), the service
  is called and the answer is 200.
\<close>

lemma prepare_null_amount:
  "prepare whole_runtime (Body null_amount_body)
     = Next (build_prompt whole_runtime 50000 [(''gym'', 0)])"
  by (simp add: prepare_def get_json_def data_get_def null_amount_body_def validate_income_def
       float_not_negative_def except_value_type_def whole_runtime_def validate_expenses_def
       parse_amount_def)

theorem null_amount_counterexample:
  "fst (analyze whole_runtime a_server answering (Body null_amount_body))
     = Some \<lparr>body = PDict [(''advice'', PStr ''Spend less.'')], status = 200\<rparr>
   \<and> attempts (snd (analyze whole_runtime a_server answering (Body null_amount_body))) = 1"
  by (simp add: response_after_prepare [OF prepare_null_amount]
       attempts_after_prepare [OF prepare_null_amount] rate_limited_at_def answering_def
       try_create_def advice_response_def)

lemma parse_amount_overflows:
  "parse_amount rt a = Inl OverflowError \<Longrightarrow> amount_overflows rt a"
  by (auto simp: parse_amount_def amount_overflows_def split: if_splits sum.splits)

lemma amount_rejected_parse:
  "amount_rejected rt a \<Longrightarrow>
   parse_amount rt a = Inl ValueError \<or> parse_amount rt a = Inl TypeError"
  by (auto simp: amount_rejected_def parse_amount_def split: sum.splits float_error.splits)

lemma first_rejected:
  "amount_rejected rt a \<Longrightarrow> \<forall>(c', a') \<in> set pre. \<not> amount_overflows rt a' \<Longrightarrow>
   \<exists>c''. parse_expenses rt (pre @ (c, a) # post) acc = Return (invalid_amount c'')"
proof (induction pre arbitrary: acc)
  case Nil
  from amount_rejected_parse [OF Nil(1)] show ?case
    by (auto simp: except_value_type_def)
next
  case (Cons e pre)
  obtain c' a' where e: "e = (c', a')" by (cases e)
  have no: "\<not> amount_overflows rt a'" using Cons.prems(2) e by simp
  have rest: "\<forall>(c', a') \<in> set pre. \<not> amount_overflows rt a'" using Cons.prems(2) by simp
  show ?case
  proof (cases "parse_amount rt a'")
    case (Inr v)
    with Cons.IH [OF Cons.prems(1) rest] e show ?thesis
      by (simp add: except_value_type_def)
  next
    case (Inl err)
    with no parse_amount_overflows [of rt a'] have "err \<noteq> OverflowError" by auto
    with Inl e show ?thesis
      by (cases err) (auto simp: except_value_type_def)
  qed
qed

lemma falsy_parse_amount:
  "\<not> float_lt_zero rt (float_zero rt) \<Longrightarrow> \<not> truthy rt a \<Longrightarrow>
   parse_amount rt a = Inr (float_zero rt)"
  by (simp add: parse_amount_def)


lemma accepted_parse_amount:
  "\<not> float_lt_zero rt (float_zero rt) \<Longrightarrow> amount_accepted rt a \<Longrightarrow>
   \<exists>v. parse_amount rt a = Inr v"
  by (auto simp: amount_accepted_def parse_amount_def split: sum.splits)

lemma all_accepted:
  "\<not> float_lt_zero rt (float_zero rt) \<Longrightarrow> \<forall>(c, a) \<in> set items. amount_accepted rt a \<Longrightarrow>
   \<exists>parsed. parse_expenses rt items acc = Next parsed"
proof (induction items arbitrary: acc)
  case Nil
  then show ?case by simp
next
  case (Cons e items)
  obtain c a where e: "e = (c, a)" by (cases e)
  from Cons.prems e have "amount_accepted rt a" by simp
  from accepted_parse_amount [OF Cons.prems(1) this] obtain v where
    v: "parse_amount rt a = Inr v" by blast
  have "\<forall>(c, a) \<in> set items. amount_accepted rt a" using Cons.prems(2) by simp
  from Cons.IH [OF Cons.prems(1) this, of "AList.update c v acc"] e v show ?case
    by (simp add: except_value_type_def)
qed

text \<open>
  Claim C3, amended. For every request whose body decodes to a JSON object and whose
  income does not overflow \<open>float()\<close>: when the expenses are missing, not a mapping or
  empty, and when some entry has an amount that is truthy and that \<open>float()\<close> rejects
  with ValueError or TypeError or converts to a value below zero, while \<open>float()\<close>
  overflows on no entry before it, the handler returns 400 with an error object and the
  run has no effect, so the service is not called. A falsy amount (null, the empty
  string, 0, false, the empty list, the empty object, a float equal to zero) is not
  rejected: it is parsed as 0.0 (which is not below zero) and the loop goes on with the
  next entry; and a request whose income passes and whose expenses are a non-empty
  mapping of amounts that are each falsy or converted by \<open>float()\<close> to a value not below
  zero passes validation.
\<close>

theorem expenses_validation:
  fixes rt :: "'f runtime"
  shows
   "(py_float rt (income_field kvs) \<noteq> Inl OverflowError
       \<and> (\<not> json_object (expenses_field kvs) \<or> expenses_field kvs = PDict [])
       \<longrightarrow> (\<exists>m. analyze rt srv service (Body (PDict kvs))
                 = (Some \<lparr>body = PDict [(''error'', PStr m)], status = 400\<rparr>, [])))
    \<and> (\<forall>pre c a post.
          py_float rt (income_field kvs) \<noteq> Inl OverflowError
          \<and> expenses_field kvs = PDict (pre @ (c, a) # post)
          \<and> amount_rejected rt a
          \<and> (\<forall>(c', a') \<in> set pre. \<not> amount_overflows rt a')
       \<longrightarrow> (\<exists>m. analyze rt srv service (Body (PDict kvs))
                 = (Some \<lparr>body = PDict [(''error'', PStr m)], status = 400\<rparr>, [])))
    \<and> (\<not> float_lt_zero rt (float_zero rt)
       \<longrightarrow> parse_amount rt PNone = Inr (float_zero rt)
           \<and> parse_amount rt (PStr '''') = Inr (float_zero rt)
           \<and> parse_amount rt (PInt 0) = Inr (float_zero rt)
           \<and> parse_amount rt (PBool False) = Inr (float_zero rt)
           \<and> parse_amount rt (PList []) = Inr (float_zero rt)
           \<and> parse_amount rt (PDict []) = Inr (float_zero rt)
           \<and> (\<forall>x. float_is_zero rt x \<longrightarrow> parse_amount rt (PFloat x) = Inr (float_zero rt))
           \<and> (\<forall>c a rest acc. parse_amount rt a = Inr (float_zero rt)
                 \<longrightarrow> parse_expenses rt ((c, a) # rest) acc
                     = parse_expenses rt rest (AList.update c (float_zero rt) acc))
           \<and> (\<forall>income items.
                 validate_income rt (income_field kvs) = Next income
                 \<and> expenses_field kvs = PDict items \<and> items \<noteq> []
                 \<and> (\<forall>(c, a) \<in> set items. amount_accepted rt a)
                 \<longrightarrow> (\<exists>prompt. prepare rt (Body (PDict kvs)) = Next prompt)))"
proof -
  let ?goal = "\<exists>m. analyze rt srv service (Body (PDict kvs))
                 = (Some \<lparr>body = PDict [(''error'', PStr m)], status = 400\<rparr>, [])"
  have ret: "?goal" if "prepare rt (Body (PDict kvs)) = Return (error_response m 400)" for m
    using that by (auto simp: prepare_no_calls error_response_def)
  have stage: ?goal
    if i: "py_float rt (income_field kvs) \<noteq> Inl OverflowError"
      and v: "validate_expenses rt (expenses_field kvs) = Return (error_response m 400)"
    for m
    using income_rejected_400 [OF i]
  proof
    assume "\<exists>x. validate_income rt (income_field kvs) = Next x"
    then have "prepare rt (Body (PDict kvs)) = Return (error_response m 400)"
      using v by (auto simp: prepare_dict)
    then show ?thesis by (rule ret)
  next
    assume "\<exists>m. prepare rt (Body (PDict kvs)) = Return (error_response m 400)"
    then show ?thesis by (auto intro: ret)
  qed
  have a: "py_float rt (income_field kvs) \<noteq> Inl OverflowError
       \<and> (\<not> json_object (expenses_field kvs) \<or> expenses_field kvs = PDict []) \<longrightarrow> ?goal"
  proof
    assume h: "py_float rt (income_field kvs) \<noteq> Inl OverflowError
       \<and> (\<not> json_object (expenses_field kvs) \<or> expenses_field kvs = PDict [])"
    then have "validate_expenses rt (expenses_field kvs) = Return no_expenses"
      by (auto simp: validate_expenses_def json_object_def split: pyval.splits)
    with h show ?goal by (auto simp: no_expenses_def intro: stage)
  qed
  have b: "py_float rt (income_field kvs) \<noteq> Inl OverflowError
          \<and> expenses_field kvs = PDict (pre @ (c, a) # post)
          \<and> amount_rejected rt a
          \<and> (\<forall>(c', a') \<in> set pre. \<not> amount_overflows rt a') \<longrightarrow> ?goal" for pre c a post
  proof
    assume h: "py_float rt (income_field kvs) \<noteq> Inl OverflowError
          \<and> expenses_field kvs = PDict (pre @ (c, a) # post)
          \<and> amount_rejected rt a
          \<and> (\<forall>(c', a') \<in> set pre. \<not> amount_overflows rt a')"
    then obtain c'' where
      "parse_expenses rt (pre @ (c, a) # post) [] = Return (invalid_amount c'')"
      using first_rejected [of rt a pre c post "[]"] by blast
    with h have "validate_expenses rt (expenses_field kvs) = Return (invalid_amount c'')"
      by (simp add: validate_expenses_def)
    with h show ?goal by (auto simp: invalid_amount_def intro: stage)
  qed
  have c: "\<not> float_lt_zero rt (float_zero rt)
       \<longrightarrow> parse_amount rt PNone = Inr (float_zero rt)
           \<and> parse_amount rt (PStr '''') = Inr (float_zero rt)
           \<and> parse_amount rt (PInt 0) = Inr (float_zero rt)
           \<and> parse_amount rt (PBool False) = Inr (float_zero rt)
           \<and> parse_amount rt (PList []) = Inr (float_zero rt)
           \<and> parse_amount rt (PDict []) = Inr (float_zero rt)
           \<and> (\<forall>x. float_is_zero rt x \<longrightarrow> parse_amount rt (PFloat x) = Inr (float_zero rt))
           \<and> (\<forall>c a rest acc. parse_amount rt a = Inr (float_zero rt)
                 \<longrightarrow> parse_expenses rt ((c, a) # rest) acc
                     = parse_expenses rt rest (AList.update c (float_zero rt) acc))"
    by (simp add: falsy_parse_amount except_value_type_def)
  have d: "\<exists>prompt. prepare rt (Body (PDict kvs)) = Next prompt"
    if z: "\<not> float_lt_zero rt (float_zero rt)"
      and i: "validate_income rt (income_field kvs) = Next income"
      and e: "expenses_field kvs = PDict items" and ne: "items \<noteq> []"
      and acc: "\<forall>(c, a) \<in> set items. amount_accepted rt a"
    for income items
  proof -
    from all_accepted [OF z acc, of "[]"] obtain parsed where
      "parse_expenses rt items [] = Next parsed" by blast
    with e ne have "validate_expenses rt (expenses_field kvs) = Next parsed"
      by (simp add: validate_expenses_def)
    with i show ?thesis by (simp add: prepare_dict)
  qed
  show ?thesis using a b c d by blast
qed

text \<open>No expenses at all; an amount that is not a number after one that is; a null amount.\<close>

theorem expenses_validation_witness:
  "(\<exists>m. analyze whole_runtime a_server answering (Body (PDict [(''income'', PInt 50000)]))
          = (Some \<lparr>body = PDict [(''error'', PStr m)], status = 400\<rparr>, []))
   \<and> (\<exists>m. analyze whole_runtime a_server answering
            (Body (PDict [(''income'', PInt 50000),
                          (''expenses'', PDict [(''rent'', PInt 15000), (''food'', PStr ''abc''),
                                                (''gym'', PNone)])]))
          = (Some \<lparr>body = PDict [(''error'', PStr m)], status = 400\<rparr>, []))
   \<and> parse_amount whole_runtime (PList []) = Inr 0
   \<and> (\<exists>prompt. prepare whole_runtime
          (Body (PDict [(''income'', PInt 50000), (''expenses'', PDict [(''gym'', PNone)])]))
        = Next prompt)"
proof -
  let ?k1 = "[(''income'', PInt 50000 :: int pyval)]"
  let ?k2 = "[(''income'', PInt 50000 :: int pyval),
              (''expenses'', PDict [(''rent'', PInt 15000), (''food'', PStr ''abc''),
                                    (''gym'', PNone)])]"
  let ?k3 = "[(''income'', PInt 50000 :: int pyval), (''expenses'', PDict [(''gym'', PNone)])]"
  have i1: "py_float whole_runtime (income_field ?k1) \<noteq> Inl OverflowError"
    by (simp add: income_field_def whole_runtime_def)
  have e1: "expenses_field ?k1 = PDict []"
    by (simp add: expenses_field_def)
  have i2: "py_float whole_runtime (income_field ?k2) \<noteq> Inl OverflowError"
    by (simp add: income_field_def whole_runtime_def)
  have e2: "expenses_field ?k2
              = PDict ([(''rent'', PInt 15000)] @ (''food'', PStr ''abc'') # [(''gym'', PNone)])"
    by (simp add: expenses_field_def)
  have f: "py_float whole_runtime (PStr ''abc'') = Inl ValueError"
    by (simp add: whole_runtime_def whole_of_str_def ascii_strip_def ascii_space_def
         is_digit_def)
  have r2: "amount_rejected whole_runtime (PStr ''abc'')"
    using f by (simp add: amount_rejected_def del: py_float.simps)
  have o2: "\<forall>(c', a') \<in> set [(''rent'', PInt 15000 :: int pyval)].
              \<not> amount_overflows whole_runtime a'"
    by (simp add: amount_overflows_def whole_runtime_def)
  have z: "\<not> float_lt_zero whole_runtime (float_zero whole_runtime)"
    by (simp add: whole_runtime_def)
  have i3: "validate_income whole_runtime (income_field ?k3) = Next 50000"
    by (simp add: income_field_def validate_income_def float_not_negative_def
         except_value_type_def whole_runtime_def)
  have e3: "expenses_field ?k3 = PDict [(''gym'', PNone)]"
    by (simp add: expenses_field_def)
  have a3: "\<forall>(c, a) \<in> set [(''gym'', PNone :: int pyval)]. amount_accepted whole_runtime a"
    by (simp add: amount_accepted_def)
  note t1 = expenses_validation [of whole_runtime ?k1 a_server answering]
  note t2 = expenses_validation [of whole_runtime ?k2 a_server answering]
  note t3 = expenses_validation [of whole_runtime ?k3 a_server answering]
  have w1: "\<exists>m. analyze whole_runtime a_server answering (Body (PDict ?k1))
          = (Some \<lparr>body = PDict [(''error'', PStr m)], status = 400\<rparr>, [])"
    using t1 i1 e1 by blast
  have w2: "\<exists>m. analyze whole_runtime a_server answering (Body (PDict ?k2))
          = (Some \<lparr>body = PDict [(''error'', PStr m)], status = 400\<rparr>, [])"
    using t2 i2 e2 r2 o2 by blast
  have w3: "parse_amount whole_runtime (PList []) = Inr (float_zero whole_runtime)"
    using t3 z by blast
  have w4: "\<exists>prompt. prepare whole_runtime (Body (PDict ?k3)) = Next prompt"
    using t3 z i3 e3 a3 by blast
  from w3 have "parse_amount whole_runtime (PList []) = Inr 0"
    by (simp add: whole_runtime_def)
  with w1 w2 w4 show ?thesis by blast
qed

section \<open>The prompt\<close>



lemma sublist_mid: "sublist ys (xs @ ys @ zs)"
  by (auto simp: sublist_def)













subsection \<open>The example request\<close>






section \<open>Falsy amounts\<close>






section \<open>No state between requests\<close>











end
